theory Spec2Isabelle
  imports Main "HOL-Library.Word" "HOL-Library.Signed_Division"
begin

section \<open>Machine integers of evaluate.cpp\<close>

text \<open>
  The C++ type \<open>int\<close> (and \<open>Value\<close>, an alias of \<open>int\<close>: the call of \<open>std::clamp\<close> at
  line 154 type-checks only when \<open>v\<close>, an \<open>int\<close>, and the two bounds have the same type) is
  a 32-bit two's complement word. \<open>+\<close>, \<open>-\<close> and \<open>*\<close> on words wrap around; \<open>sint\<close> reads the
  signed value. Signed overflow is undefined in C++; the theorems that speak about the
  mathematical value of a result carry the hypothesis that no operation overflows.
\<close>

type_synonym int32 = "32 word"
type_synonym Value = int32

text \<open>The operator \<open>/\<close> on \<open>int\<close>: the quotient is truncated towards zero.\<close>

definition idiv :: "int32 \<Rightarrow> int32 \<Rightarrow> int32" where
  "idiv a b = word_of_int (sint a sdiv sint b)"

text \<open>\<open>std::abs\<close> on \<open>int\<close>.\<close>

definition abs_int :: "int32 \<Rightarrow> int32" where
  "abs_int x = (if x <s 0 then - x else x)"

text \<open>\<open>std::clamp(v, lo, hi)\<close>: \<open>(v < lo) ? lo : (hi < v) ? hi : v\<close>.\<close>

definition clamp :: "int32 \<Rightarrow> int32 \<Rightarrow> int32 \<Rightarrow> int32" where
  "clamp v lo hi = (if v <s lo then lo else if hi <s v then hi else v)"

text \<open>A mathematical integer is representable as an \<open>int\<close>.\<close>

definition fits32 :: "int \<Rightarrow> bool" where
  "fits32 k = (- 2147483648 \<le> k \<and> k \<le> 2147483647)"

section \<open>Declarations that evaluate.cpp includes\<close>

text \<open>
  Modelled from the spec: the enumerations \<open>Color\<close> and \<open>PieceType\<close> and the operator
  \<open>~\<close> on colours are declared in types.h, which is not among the sources. The spec
  speaks of the side to move, White and Black, and of a colour's opponent; of the piece
  types only the three that \<open>simple_eval\<close> counts are listed here.
\<close>

datatype Color = WHITE | BLACK

fun color_not :: "Color \<Rightarrow> Color" where
  "color_not WHITE = BLACK"
| "color_not BLACK = WHITE"

datatype PieceType = PAWN | ADVISOR | BISHOP

text \<open>
  Modelled from the spec: the class \<open>Position\<close> (position.h) is an external collaborator.
  The record holds what the accessors called in evaluate.cpp return: \<open>pos.count<Pt>(c)\<close>,
  \<open>pos.major_material(c)\<close>, \<open>pos.major_material()\<close>, \<open>pos.side_to_move()\<close>,
  \<open>pos.rule60_count()\<close>, and whether \<open>pos.checkers()\<close> is non-empty.
\<close>

record Position =
  count :: "PieceType \<Rightarrow> Color \<Rightarrow> int32"
  major_material_of :: "Color \<Rightarrow> Value"
  major_material :: Value
  side_to_move :: Color
  rule60_count :: int32
  checkers :: bool

text \<open>
  The constants of types.h that evaluate.cpp uses are parameters of the model, except
  \<open>VALUE_ZERO\<close>.
\<close>

record Constants =
  PawnValue :: Value
  AdvisorValue :: Value
  BishopValue :: Value
  VALUE_MATE_IN_MAX_PLY :: Value
  VALUE_MATED_IN_MAX_PLY :: Value
  VALUE_NONE :: Value

text \<open>Modelled from the spec: \<open>VALUE_ZERO\<close> (types.h) is the neutral value, zero.\<close>

definition VALUE_ZERO :: Value where
  "VALUE_ZERO = 0"

text \<open>
  The routines of nnue/evaluate_nnue.h and uci.h that \<open>evaluate\<close> and \<open>trace\<close> call are
  parameters:
  \<^item> \<open>NNUE_evaluate pos adjusted psqtOnly\<close> is \<open>NNUE::evaluate(pos, adjusted, &complexity,
    psqtOnly)\<close>; it returns the value together with what it stores in \<open>complexity\<close>;
  \<^item> \<open>NNUE_evaluate_pos pos\<close> is the call \<open>NNUE::evaluate(pos)\<close> of line 176, whose
    remaining arguments are the defaults of the header;
  \<^item> \<open>NNUE_trace pos\<close> is \<open>NNUE::trace(pos)\<close>;
  \<^item> \<open>put_cp v\<close> is the text that \<open>ss << 0.01 * UCI::to_cp(v)\<close> appends to a stream set to
    \<open>showpoint\<close>, \<open>showpos\<close>, \<open>fixed\<close> and \<open>setprecision(2)\<close>.
\<close>

record Externals =
  NNUE_evaluate :: "Position \<Rightarrow> bool \<Rightarrow> bool \<Rightarrow> Value \<times> int32"
  NNUE_evaluate_pos :: "Position \<Rightarrow> Value"
  NNUE_trace :: "Position \<Rightarrow> string"
  put_cp :: "Value \<Rightarrow> string"

section \<open>Eval::simple_eval (lines 121-126)\<close>

definition simple_eval :: "Constants \<Rightarrow> Position \<Rightarrow> Color \<Rightarrow> int32" where
  "simple_eval K pos c =
     PawnValue K * (count pos PAWN c - count pos PAWN (color_not c))
     + AdvisorValue K * (count pos ADVISOR c - count pos ADVISOR (color_not c))
     + BishopValue K * (count pos BISHOP c - count pos BISHOP (color_not c))
     + (major_material_of pos c - major_material_of pos (color_not c))"

section \<open>Eval::evaluate (lines 130-157)\<close>

text \<open>
  \<open>assert(!pos.checkers())\<close> is the branch \<open>AssertionFailed\<close> (a build with \<open>NDEBUG\<close>
  leaves the check out). The comparison \<open>a > b\<close> of two \<open>int\<close> is written \<open>b <s a\<close>, the
  signed order on words. The local variables that the source assigns twice carry a number:
  \<open>nnue0\<close> is \<open>nnue\<close> as returned, \<open>nnue1\<close> after line 145, and likewise for \<open>optimism\<close>
  and \<open>v\<close>. All divisors are non-zero constants.
\<close>

datatype error = AssertionFailed

definition evaluate ::
  "Constants \<Rightarrow> Externals \<Rightarrow> Position \<Rightarrow> int32 \<Rightarrow> Value \<Rightarrow> Value \<Rightarrow> error + Value" where
  "evaluate K X pos optimism alpha beta =
     (if checkers pos then Inl AssertionFailed
      else
        let stm = side_to_move pos;
            shuffling = rule60_count pos;
            simpleEval = simple_eval K pos stm;
            psqtOnly = (simpleEval <s alpha - 2500 \<or> beta + 2500 <s simpleEval);
            (nnue0, nnueComplexity) = NNUE_evaluate X pos True psqtOnly;
            optimism1 = optimism
              + idiv (optimism * (nnueComplexity + abs_int (simpleEval - nnue0))) 781;
            nnue1 = nnue0
              - idiv (nnue0 * (nnueComplexity + abs_int (simpleEval - nnue0))) 30087;
            mm = idiv (major_material pos) 41;
            v0 = idiv (nnue1 * (568 + mm) + optimism1 * (138 + mm)) 1434;
            v1 = idiv (v0 * (293 - shuffling)) 194;
            v2 = clamp v1 (VALUE_MATED_IN_MAX_PLY K + 1) (VALUE_MATE_IN_MAX_PLY K - 1)
        in Inr v2)"

text \<open>
  The parts of \<open>evaluate\<close> by source line, for the statements below: the flag of line 138,
  the blend of lines 144-148, the damping of line 151, and everything after the call of
  the inference routine (lines 144-156) as a function of what that call returned.
\<close>

definition psqtOnly :: "Constants \<Rightarrow> Position \<Rightarrow> Value \<Rightarrow> Value \<Rightarrow> bool" where
  "psqtOnly K pos alpha beta =
     (let simpleEval = simple_eval K pos (side_to_move pos)
      in simpleEval <s alpha - 2500 \<or> beta + 2500 <s simpleEval)"

definition blend :: "int32 \<Rightarrow> Value \<Rightarrow> int32 \<Rightarrow> int32 \<Rightarrow> Value \<Rightarrow> int32" where
  "blend optimism nnue nnueComplexity simpleEval majorMaterial =
     (let optimism1 = optimism
            + idiv (optimism * (nnueComplexity + abs_int (simpleEval - nnue))) 781;
          nnue1 = nnue
            - idiv (nnue * (nnueComplexity + abs_int (simpleEval - nnue))) 30087;
          mm = idiv majorMaterial 41
      in idiv (nnue1 * (568 + mm) + optimism1 * (138 + mm)) 1434)"

definition damp :: "int32 \<Rightarrow> int32 \<Rightarrow> int32" where
  "damp v shuffling = idiv (v * (293 - shuffling)) 194"

definition evaluate_tail :: "Constants \<Rightarrow> Position \<Rightarrow> int32 \<Rightarrow> Value \<times> int32 \<Rightarrow> Value" where
  "evaluate_tail K pos optimism r =
     clamp (damp (blend optimism (fst r) (snd r) (simple_eval K pos (side_to_move pos))
                    (major_material pos))
                 (rule60_count pos))
           (VALUE_MATED_IN_MAX_PLY K + 1) (VALUE_MATE_IN_MAX_PLY K - 1)"

text \<open>
  The blend of lines 144-148 as the spec words it, in exact integer arithmetic with the
  quotients truncated towards zero (\<open>sdiv\<close> on \<open>int\<close>): optimism grows by
  \<open>optimism * (complexity + |simpleEval - nnue|) / 781\<close>, nnue shrinks by
  \<open>nnue * (complexity + |simpleEval - nnue|) / 30087\<close>, \<open>mm = totalMajorMaterial / 41\<close> and
  \<open>v = (nnue * (568 + mm) + optimism * (138 + mm)) / 1434\<close>.
\<close>

definition blend_exact :: "int \<Rightarrow> int \<Rightarrow> int \<Rightarrow> int \<Rightarrow> int \<Rightarrow> int" where
  "blend_exact optimism nnue complexity simpleEval totalMajorMaterial =
     (let d = complexity + \<bar>simpleEval - nnue\<bar>;
          optimism1 = optimism + optimism * d sdiv 781;
          nnue1 = nnue - nnue * d sdiv 30087;
          mm = totalMajorMaterial sdiv 41
      in (nnue1 * (568 + mm) + optimism1 * (138 + mm)) sdiv 1434)"

text \<open>No operation of lines 144-148 overflows: every intermediate result is an \<open>int\<close>.\<close>

definition blend_fits :: "int \<Rightarrow> int \<Rightarrow> int \<Rightarrow> int \<Rightarrow> int \<Rightarrow> bool" where
  "blend_fits optimism nnue complexity simpleEval totalMajorMaterial =
     (let diff = simpleEval - nnue;
          d = complexity + \<bar>diff\<bar>;
          optimism1 = optimism + optimism * d sdiv 781;
          nnue1 = nnue - nnue * d sdiv 30087;
          mm = totalMajorMaterial sdiv 41
      in fits32 diff \<and> fits32 \<bar>diff\<bar> \<and> fits32 d
         \<and> fits32 (optimism * d) \<and> fits32 optimism1
         \<and> fits32 (nnue * d) \<and> fits32 nnue1
         \<and> fits32 (568 + mm) \<and> fits32 (138 + mm)
         \<and> fits32 (nnue1 * (568 + mm)) \<and> fits32 (optimism1 * (138 + mm))
         \<and> fits32 (nnue1 * (568 + mm) + optimism1 * (138 + mm)))"

section \<open>Eval::trace (lines 163-187)\<close>

text \<open>
  The stream manipulators change the output of numbers only, which is in \<open>put_cp\<close>;
  \<open>setw(15)\<close> applies to the next item, a string of 23 characters, and pads nothing.
\<close>

definition trace :: "Constants \<Rightarrow> Externals \<Rightarrow> Position \<Rightarrow> error + string" where
  "trace K X pos =
     (if checkers pos then Inr ''Final evaluation: none (in check)''
      else
        let ss0 = [CHR 0x0A] @ NNUE_trace X pos @ [CHR 0x0A];
            v0 = NNUE_evaluate_pos X pos;
            v1 = (if side_to_move pos = WHITE then v0 else - v0);
            ss1 = ss0 @ ''NNUE evaluation        '' @ put_cp X v1 @ '' (white side)''
                      @ [CHR 0x0A]
        in case evaluate K X pos VALUE_ZERO (- VALUE_NONE K) (VALUE_NONE K) of
             Inl e \<Rightarrow> Inl e
           | Inr v2 \<Rightarrow>
               let v3 = (if side_to_move pos = WHITE then v2 else - v2);
                   ss2 = ss1 @ ''Final evaluation       '' @ put_cp X v3 @ '' (white side)'';
                   ss3 = ss2 @ '' [with scaled NNUE, ...]'';
                   ss4 = ss3 @ [CHR 0x0A]
               in Inr ss4)"

section \<open>NNUE::load_networks (lines 50-80) and NNUE::verify (lines 83-114)\<close>

text \<open>
  Modelled from the spec: the struct \<open>EvalFile\<close> (evaluate.h) is the spec's NetworkState,
  with the four fields that evaluate.cpp reads and writes. \<open>OptionsMap\<close> is a lookup from
  option names to the configured strings.
\<close>

record EvalFile =
  optionName :: string
  defaultName :: string
  current :: string
  netDescription :: string

type_synonym OptionsMap = "string \<Rightarrow> string"

text \<open>
  The file system and the parser are parameters: \<open>read_zipped_nnue path\<close> is the stream
  that the routine of that name returns, \<open>ifstream_binary path\<close> is
  \<open>std::ifstream(path, std::ios::binary)\<close>, and \<open>load_eval\<close> is \<open>NNUE::load_eval\<close>.
\<close>

record 's Files =
  read_zipped_nnue :: "string \<Rightarrow> 's"
  ifstream_binary :: "string \<Rightarrow> 's"
  load_eval :: "'s \<Rightarrow> string option"

text \<open>The body of the loop of lines 61-77, for one directory.\<close>

definition load_from :: "'s Files \<Rightarrow> string \<Rightarrow> string \<Rightarrow> EvalFile \<Rightarrow> EvalFile" where
  "load_from F user_eval_file directory evalFile =
     (if current evalFile \<noteq> user_eval_file then
        let ss = read_zipped_nnue F (directory @ user_eval_file);
            description0 = load_eval F ss;
            description =
              (if description0 = None
               then load_eval F (ifstream_binary F (directory @ user_eval_file))
               else description0)
        in case description of
             Some d \<Rightarrow> evalFile\<lparr>current := user_eval_file, netDescription := d\<rparr>
           | None \<Rightarrow> evalFile
      else evalFile)"

fun load_loop :: "'s Files \<Rightarrow> string \<Rightarrow> string list \<Rightarrow> EvalFile \<Rightarrow> EvalFile" where
  "load_loop F user_eval_file [] evalFile = evalFile"
| "load_loop F user_eval_file (directory # dirs) evalFile =
     load_loop F user_eval_file dirs (load_from F user_eval_file directory evalFile)"

definition load_networks :: "'s Files \<Rightarrow> string \<Rightarrow> OptionsMap \<Rightarrow> EvalFile \<Rightarrow> EvalFile" where
  "load_networks F rootDirectory options evalFile =
     (let configured = options (optionName evalFile);
          user_eval_file = (if configured = [] then defaultName evalFile else configured);
          dirs = ['''', rootDirectory]
      in load_loop F user_eval_file dirs evalFile)"

text \<open>
  \<open>verify\<close> returns the lines written to \<open>sync_cout\<close> and how the call ends: it returns,
  or it ends the process through \<open>exit\<close> with a status. \<open>EXIT_FAILURE\<close> is the macro of
  \<open><cstdlib>\<close>, 1 on the platforms the engine is built for.
\<close>

datatype outcome = Returns | Exits int

definition EXIT_FAILURE :: int where
  "EXIT_FAILURE = 1"

definition verify :: "OptionsMap \<Rightarrow> EvalFile \<Rightarrow> string list \<times> outcome" where
  "verify options evalFile =
     (let configured = options (optionName evalFile);
          user_eval_file = (if configured = [] then defaultName evalFile else configured)
      in if current evalFile \<noteq> user_eval_file then
           let msg1 =
                 ''Network evaluation parameters compatible with the engine must be available.'';
               msg2 = ''The network file '' @ user_eval_file @ '' was not loaded successfully.'';
               msg3 = ''The UCI option EvalFile might need to specify the full path, ''
                      @ ''including the directory name, to the network file.'';
               msg4 = ''The default net can be downloaded from: ''
                      @ ''https://github.com/official-pikafish/Networks/releases/download/master-net/''
                      @ defaultName evalFile;
               msg5 = ''The engine will be terminated now.''
           in ([''info string ERROR: '' @ msg1,
                ''info string ERROR: '' @ msg2,
                ''info string ERROR: '' @ msg3,
                ''info string ERROR: '' @ msg4,
                ''info string ERROR: '' @ msg5],
               Exits EXIT_FAILURE)
         else ([''info string NNUE evaluation using '' @ user_eval_file @ '' enabled''],
               Returns))"

section \<open>Sample data\<close>

text \<open>
  Concrete constants, a position, stand-ins for the external routines, a file system with
  one network file and two configurations, at which the theorems below are instantiated.
\<close>

definition sample_constants :: Constants where
  "sample_constants =
     \<lparr>PawnValue = 140, AdvisorValue = 230, BishopValue = 250,
      VALUE_MATE_IN_MAX_PLY = 31754, VALUE_MATED_IN_MAX_PLY = - 31754, VALUE_NONE = 32002\<rparr>"

definition sample_position :: Position where
  "sample_position =
     \<lparr>count = (\<lambda>pt c. case (pt, c) of (PAWN, WHITE) \<Rightarrow> 5 | (PAWN, BLACK) \<Rightarrow> 4 | _ \<Rightarrow> 2),
      major_material_of = (\<lambda>c. case c of WHITE \<Rightarrow> 6000 | BLACK \<Rightarrow> 5200),
      major_material = 11200,
      side_to_move = BLACK,
      rule60_count = 12,
      checkers = False\<rparr>"

definition sample_externals :: Externals where
  "sample_externals =
     \<lparr>NNUE_evaluate = (\<lambda>pos adjusted psqtOnly. if psqtOnly then (- 900, 0) else (- 350, 120)),
      NNUE_evaluate_pos = (\<lambda>pos. - 340),
      NNUE_trace = (\<lambda>pos. ''(breakdown)''),
      put_cp = (\<lambda>v. if v <s 0 then ''-'' else ''+'')\<rparr>"

text \<open>
  A stream is the pair of how the file was opened (\<open>True\<close> through \<open>read_zipped_nnue\<close>) and
  its path; only the raw file \<open>engine/pikafish.nnue\<close> parses.
\<close>

definition sample_files :: "(bool \<times> string) Files" where
  "sample_files =
     \<lparr>read_zipped_nnue = (\<lambda>path. (True, path)),
      ifstream_binary = (\<lambda>path. (False, path)),
      load_eval = (\<lambda>s. if s = (False, ''engine/pikafish.nnue'') then Some ''net-1'' else None)\<rparr>"

definition sample_evalFile :: EvalFile where
  "sample_evalFile =
     \<lparr>optionName = ''EvalFile'', defaultName = ''pikafish.nnue'',
      current = ''None'', netDescription = ''''\<rparr>"

definition default_options :: OptionsMap where
  "default_options = (\<lambda>name. '''')"

definition custom_options :: OptionsMap where
  "custom_options = (\<lambda>name. if name = ''EvalFile'' then ''custom.net'' else '''')"

section \<open>Properties\<close>

subsection \<open>Signed values of the machine operations\<close>

lemma sdiv_pos_divisor:
  "0 < l \<Longrightarrow> k sdiv l = (if 0 \<le> k then k div l else - ((- k) div l))" for k l :: int
  by (simp add: signed_divide_int_def sgn_if)

lemma div_between: "0 \<le> k \<Longrightarrow> 0 < l \<Longrightarrow> 0 \<le> k div l \<and> k div l \<le> k" for k l :: int
  by (cases "k = 0") (simp_all add: pos_imp_zdiv_nonneg_iff int_div_le_self)

lemma sdiv_between_nonneg:
  "0 < l \<Longrightarrow> 0 \<le> k \<Longrightarrow> 0 \<le> k sdiv l \<and> k sdiv l \<le> k" for k l :: int
  using div_between [of k l] by (simp add: sdiv_pos_divisor)

lemma sdiv_between_nonpos:
  "0 < l \<Longrightarrow> k \<le> 0 \<Longrightarrow> k \<le> k sdiv l \<and> k sdiv l \<le> 0" for k l :: int
  using div_between [of "- k" l] by (cases "k = 0") (simp_all add: sdiv_pos_divisor)

lemma fits32_sint: "fits32 (sint (a :: int32))"
  using sint_ge [of a] sint_lt [of a] by (simp add: fits32_def)

lemma fits32_sdiv: "0 < l \<Longrightarrow> fits32 k \<Longrightarrow> fits32 (k sdiv l)"
  using sdiv_between_nonneg [of l k] sdiv_between_nonpos [of l k]
  by (cases "0 \<le> k") (auto simp add: fits32_def)

lemma signed_take_bit_fits32: "fits32 k \<Longrightarrow> signed_take_bit 31 k = k"
  by (rule signed_take_bit_int_eq_self) (simp_all add: fits32_def)

lemma sint_word_of_int_fits: "fits32 k \<Longrightarrow> sint (word_of_int k :: int32) = k"
  by (simp add: sint_sbintrunc' signed_take_bit_fits32)

lemma sint_idiv: "0 < sint b \<Longrightarrow> sint (idiv a b) = sint a sdiv sint b"
  by (simp add: idiv_def sint_word_of_int_fits fits32_sdiv fits32_sint)

lemma sint_add_fits: "fits32 (sint a + sint b) \<Longrightarrow> sint (a + b :: int32) = sint a + sint b"
  by (simp add: sint_word_ariths signed_take_bit_fits32)

lemma sint_sub_fits: "fits32 (sint a - sint b) \<Longrightarrow> sint (a - b :: int32) = sint a - sint b"
  by (simp add: sint_word_ariths signed_take_bit_fits32)

lemma sint_mult_fits: "fits32 (sint a * sint b) \<Longrightarrow> sint (a * b :: int32) = sint a * sint b"
  by (simp add: sint_word_ariths signed_take_bit_fits32)

lemma sint_neg_fits: "fits32 (- sint a) \<Longrightarrow> sint (- a :: int32) = - sint a"
  by (simp add: sint_word_ariths signed_take_bit_fits32)

lemma sint_abs_int: "fits32 \<bar>sint a\<bar> \<Longrightarrow> sint (abs_int a) = \<bar>sint a\<bar>"
  by (auto simp add: abs_int_def word_sless_alt sint_neg_fits abs_if)

subsection \<open>The parts of evaluate\<close>

lemma clamp_range: "lo \<le>s hi \<Longrightarrow> lo \<le>s clamp v lo hi \<and> clamp v lo hi \<le>s hi"
  by (auto simp add: clamp_def word_sle_eq word_sless_alt)

lemma evaluate_parts:
  "\<not> checkers pos \<Longrightarrow>
   evaluate K X pos optimism alpha beta =
     Inr (evaluate_tail K pos optimism (NNUE_evaluate X pos True (psqtOnly K pos alpha beta)))"
  by (simp add: evaluate_def evaluate_tail_def psqtOnly_def blend_def damp_def Let_def
      split: prod.split)

lemma sample_position_simps:
  "side_to_move sample_position = BLACK" "rule60_count sample_position = 12"
  "major_material sample_position = 11200" "checkers sample_position = False"
  by (simp_all add: sample_position_def)

lemma sample_constants_simps:
  "VALUE_MATE_IN_MAX_PLY sample_constants = 31754"
  "VALUE_MATED_IN_MAX_PLY sample_constants = - 31754"
  "VALUE_NONE sample_constants = 32002"
  by (simp_all add: sample_constants_def)

lemma sample_simple_eval: "simple_eval sample_constants sample_position BLACK = - 940"
  by (simp add: simple_eval_def sample_constants_def sample_position_def)

text \<open>
  C1: for every position whose side to move is not in check and every optimism, alpha and
  beta, \<open>evaluate\<close> returns a value that is at least \<open>VALUE_MATED_IN_MAX_PLY + 1\<close> and at
  most \<open>VALUE_MATE_IN_MAX_PLY - 1\<close>, so strictly between the two sentinels. The two
  constants are parameters; the clamp interval is assumed non-empty.
\<close>

theorem evaluate_inside_mate_bounds:
  assumes "\<not> checkers pos"
    and "sint (VALUE_MATED_IN_MAX_PLY K) + 1 \<le> sint (VALUE_MATE_IN_MAX_PLY K) - 1"
  shows "\<exists>v. evaluate K X pos optimism alpha beta = Inr v
           \<and> sint (VALUE_MATED_IN_MAX_PLY K) + 1 \<le> sint v
           \<and> sint v \<le> sint (VALUE_MATE_IN_MAX_PLY K) - 1
           \<and> VALUE_MATED_IN_MAX_PLY K <s v \<and> v <s VALUE_MATE_IN_MAX_PLY K"
proof -
  let ?lo = "VALUE_MATED_IN_MAX_PLY K + 1" and ?hi = "VALUE_MATE_IN_MAX_PLY K - 1"
  define v where
    "v = evaluate_tail K pos optimism (NNUE_evaluate X pos True (psqtOnly K pos alpha beta))"
  have lo: "sint ?lo = sint (VALUE_MATED_IN_MAX_PLY K) + 1"
    using assms(2) fits32_sint [of "VALUE_MATED_IN_MAX_PLY K"]
      fits32_sint [of "VALUE_MATE_IN_MAX_PLY K"]
    by (intro sint_add_fits [of _ 1, simplified]) (simp add: fits32_def)
  have hi: "sint ?hi = sint (VALUE_MATE_IN_MAX_PLY K) - 1"
    using assms(2) fits32_sint [of "VALUE_MATED_IN_MAX_PLY K"]
      fits32_sint [of "VALUE_MATE_IN_MAX_PLY K"]
    by (intro sint_sub_fits [of _ 1, simplified]) (simp add: fits32_def)
  have "?lo \<le>s ?hi"
    using assms(2) by (simp add: word_sle_eq lo hi)
  then have "?lo \<le>s v \<and> v \<le>s ?hi"
    unfolding v_def evaluate_tail_def by (rule clamp_range)
  then have bounds: "sint (VALUE_MATED_IN_MAX_PLY K) + 1 \<le> sint v"
      "sint v \<le> sint (VALUE_MATE_IN_MAX_PLY K) - 1"
    by (simp_all add: word_sle_eq lo hi)
  have "evaluate K X pos optimism alpha beta = Inr v"
    using assms(1) by (simp add: evaluate_parts v_def)
  with bounds show ?thesis
    by (simp add: word_sless_alt)
qed

theorem evaluate_inside_mate_bounds_witness:
  "\<not> checkers sample_position
   \<and> sint (VALUE_MATED_IN_MAX_PLY sample_constants) + 1
       \<le> sint (VALUE_MATE_IN_MAX_PLY sample_constants) - 1
   \<and> (\<exists>v. evaluate sample_constants sample_externals sample_position 40 (- 200) 200 = Inr v
         \<and> sint (VALUE_MATED_IN_MAX_PLY sample_constants) + 1 \<le> sint v
         \<and> sint v \<le> sint (VALUE_MATE_IN_MAX_PLY sample_constants) - 1
         \<and> VALUE_MATED_IN_MAX_PLY sample_constants <s v
         \<and> v <s VALUE_MATE_IN_MAX_PLY sample_constants)"
proof -
  have h1: "\<not> checkers sample_position"
    by (simp add: sample_position_simps)
  have h2: "sint (VALUE_MATED_IN_MAX_PLY sample_constants) + 1
            \<le> sint (VALUE_MATE_IN_MAX_PLY sample_constants) - 1"
    by (simp add: sample_constants_simps)
  show ?thesis
    using h1 h2 evaluate_inside_mate_bounds [OF h1 h2, of sample_externals 40 "- 200" 200]
    by blast
qed


subsection \<open>The blend in exact arithmetic\<close>

lemma blend_sint:
  assumes "blend_fits (sint optimism) (sint nnue) (sint complexity) (sint simpleEval)
             (sint majorMaterial)"
  shows "sint (blend optimism nnue complexity simpleEval majorMaterial)
         = blend_exact (sint optimism) (sint nnue) (sint complexity) (sint simpleEval)
             (sint majorMaterial)"
  using assms
  by (simp add: blend_fits_def blend_def blend_exact_def Let_def
      sint_sub_fits sint_add_fits sint_mult_fits sint_abs_int sint_idiv)

lemma sample_psqtOnly:
  "psqtOnly sample_constants sample_position (- 200) 200 = False"
  "psqtOnly sample_constants sample_position 2000 2200 = True"
  by (simp_all add: psqtOnly_def sample_simple_eval sample_position_simps word_sless_alt)

lemma sample_NNUE_evaluate:
  "NNUE_evaluate sample_externals pos adjusted False = (- 350, 120)"
  "NNUE_evaluate sample_externals pos adjusted True = (- 900, 0)"
  by (simp_all add: sample_externals_def)

lemma sample_blend_exact: "blend_exact 40 (- 350) 120 (- 940) 11200 = - 178"
  by (simp add: blend_exact_def signed_divide_int_def)

lemma sample_blend_fits: "blend_fits 40 (- 350) 120 (- 940) 11200"
  by (simp add: blend_fits_def fits32_def signed_divide_int_def)

lemma sample_damp: "damp (- 178) 12 = - 257"
  by (simp add: damp_def idiv_def signed_divide_int_def)

lemma sample_clamp: "clamp (- 257) (- 31753) 31753 = - 257"
  by (simp add: clamp_def word_sless_alt)

text \<open>
  C4: the value that \<open>evaluate\<close> damps and clamps is the blend of the spec in exact integer
  arithmetic (\<open>blend_exact\<close>, with the constants 781, 30087, 41, 568, 138 and 1434),
  applied to the optimism, to the value and the complexity that the inference routine
  returned, to the material estimate and to the total major material, whenever no
  operation of lines 144-148 overflows.
\<close>

theorem evaluate_blend_exact:
  assumes "\<not> checkers pos"
    and "NNUE_evaluate X pos True (psqtOnly K pos alpha beta) = (nnue, complexity)"
    and "blend_fits (sint optimism) (sint nnue) (sint complexity)
           (sint (simple_eval K pos (side_to_move pos))) (sint (major_material pos))"
  shows "evaluate K X pos optimism alpha beta =
           Inr (clamp
                  (damp (word_of_int
                           (blend_exact (sint optimism) (sint nnue) (sint complexity)
                              (sint (simple_eval K pos (side_to_move pos)))
                              (sint (major_material pos))))
                        (rule60_count pos))
                  (VALUE_MATED_IN_MAX_PLY K + 1) (VALUE_MATE_IN_MAX_PLY K - 1))"
proof -
  have "blend optimism nnue complexity (simple_eval K pos (side_to_move pos))
          (major_material pos)
        = word_of_int
            (blend_exact (sint optimism) (sint nnue) (sint complexity)
               (sint (simple_eval K pos (side_to_move pos))) (sint (major_material pos)))"
    using blend_sint [OF assms(3), symmetric] by simp
  then show ?thesis
    using assms(1,2) by (simp add: evaluate_parts evaluate_tail_def)
qed

theorem evaluate_blend_exact_witness:
  "\<not> checkers sample_position
   \<and> NNUE_evaluate sample_externals sample_position True
         (psqtOnly sample_constants sample_position (- 200) 200) = (- 350, 120)
   \<and> blend_fits 40 (- 350) 120 (- 940) 11200
   \<and> blend_exact 40 (- 350) 120 (- 940) 11200 = - 178
   \<and> evaluate sample_constants sample_externals sample_position 40 (- 200) 200 = Inr (- 257)"
proof -
  have h1: "\<not> checkers sample_position"
    by (simp add: sample_position_simps)
  have h2: "NNUE_evaluate sample_externals sample_position True
              (psqtOnly sample_constants sample_position (- 200) 200) = (- 350, 120)"
    by (simp add: sample_psqtOnly sample_NNUE_evaluate)
  have h3: "blend_fits (sint (40 :: int32)) (sint (- 350 :: int32)) (sint (120 :: int32))
              (sint (simple_eval sample_constants sample_position
                       (side_to_move sample_position)))
              (sint (major_material sample_position))"
    by (simp add: sample_position_simps sample_simple_eval sample_blend_fits)
  show ?thesis
    using h1 h2 evaluate_blend_exact [OF h1 h2 h3]
    by (simp add: sample_position_simps sample_constants_simps sample_simple_eval
        sample_blend_fits sample_blend_exact sample_damp sample_clamp)
qed

subsection \<open>The damping\<close>

lemma abs_sdiv_pos_divisor: "0 < l \<Longrightarrow> \<bar>k sdiv l\<bar> = \<bar>k\<bar> div l" for k l :: int
  using div_between [of k l] div_between [of "- k" l]
  by (cases "0 \<le> k") (simp_all add: sdiv_pos_divisor)

lemma fits32_mult_smaller:
  assumes "fits32 (k * n)" and "0 \<le> m" and "m \<le> n"
  shows "fits32 (k * m)"
proof (cases "0 \<le> k")
  case True
  then have "0 \<le> k * m" and "k * m \<le> k * n"
    using assms(2,3) by (simp_all add: mult_left_mono)
  with assms(1) show ?thesis
    by (simp add: fits32_def)
next
  case False
  then have "k * m \<le> 0" and "k * n \<le> k * m"
    using assms(2,3) by (simp_all add: mult_le_0_iff mult_left_mono_neg)
  with assms(1) show ?thesis
    by (simp add: fits32_def)
qed

lemma damp_sint:
  assumes "0 \<le> sint shuffling" and "sint shuffling \<le> 293" and "fits32 (sint v * 293)"
  shows "sint (damp v shuffling) = sint v * (293 - sint shuffling) sdiv 194"
proof -
  have "fits32 (293 - sint shuffling)"
    using assms(1,2) by (simp add: fits32_def)
  then have factor: "sint (293 - shuffling) = 293 - sint shuffling"
    using sint_sub_fits [of 293 shuffling] by simp
  have "fits32 (sint v * (293 - sint shuffling))"
  proof (rule fits32_mult_smaller [OF assms(3)])
    show "0 \<le> 293 - sint shuffling" and "293 - sint shuffling \<le> 293"
      using assms(1,2) by simp_all
  qed
  then have "sint (v * (293 - shuffling)) = sint v * (293 - sint shuffling)"
    using sint_mult_fits [of v "293 - shuffling"] by (simp add: factor)
  then show ?thesis
    by (simp add: damp_def sint_idiv)
qed

lemma damp_monotone:
  assumes "0 \<le> sint s" and "sint s \<le> sint s'" and "sint s' \<le> 293"
    and "fits32 (sint v * 293)"
  shows "\<bar>sint (damp v s')\<bar> \<le> \<bar>sint (damp v s)\<bar>"
proof -
  have "\<bar>sint v\<bar> * (293 - sint s') \<le> \<bar>sint v\<bar> * (293 - sint s)"
    using assms(2) by (intro mult_left_mono) simp_all
  then have "\<bar>sint v * (293 - sint s')\<bar> \<le> \<bar>sint v * (293 - sint s)\<bar>"
    using assms(1,2,3) by (simp add: abs_mult)
  then have "\<bar>sint v * (293 - sint s')\<bar> div 194 \<le> \<bar>sint v * (293 - sint s)\<bar> div 194"
    by (intro zdiv_mono1) simp_all
  then show ?thesis
    using assms by (simp add: damp_sint abs_sdiv_pos_divisor)
qed

lemma damp_293: "damp v 293 = 0"
  by (simp add: damp_def idiv_def)

lemma clamp_0:
  assumes "sint lo < 0" and "0 < sint hi"
  shows "clamp 0 (lo + 1) (hi - 1) = 0"
proof -
  have "sint (lo + 1) = sint lo + 1"
    using assms(1) fits32_sint [of lo]
    by (intro sint_add_fits [of _ 1, simplified]) (simp add: fits32_def)
  moreover have "sint (hi - 1) = sint hi - 1"
    using assms(2) fits32_sint [of hi]
    by (intro sint_sub_fits [of _ 1, simplified]) (simp add: fits32_def)
  ultimately show ?thesis
    using assms by (simp add: clamp_def word_sless_alt)
qed

lemma sample_blend: "blend 40 (- 350) 120 (- 940) 11200 = - 178"
proof -
  have "sint (blend 40 (- 350) 120 (- 940) 11200) = - 178"
    using blend_sint [of 40 "- 350" 120 "- 940" 11200]
    by (simp add: sample_blend_fits sample_blend_exact)
  then have "word_of_int (sint (blend 40 (- 350) 120 (- 940) 11200)) = (word_of_int (- 178) :: int32)"
    by simp
  then show ?thesis
    by simp
qed

lemma sample_damp_more: "damp (- 178) 100 = - 177"
  by (simp add: damp_def idiv_def signed_divide_int_def)

text \<open>
  C5: \<open>evaluate\<close> damps the blended value \<open>v\<close> to \<open>v * (293 - shuffling) / 194\<close> before it
  clamps. Where the product does not overflow, the damped value is that quotient of
  integers, and for shuffling going from 0 up to 293 its magnitude does not increase. At
  shuffling 293 \<open>evaluate\<close> returns exactly 0, whatever the inference routine and the
  optimism are, provided 0 lies strictly between the two mate bounds.
\<close>

theorem damping_by_shuffling:
  "(\<not> checkers pos \<longrightarrow>
      evaluate K X pos optimism alpha beta =
        Inr (clamp
               (damp (blend optimism
                        (fst (NNUE_evaluate X pos True (psqtOnly K pos alpha beta)))
                        (snd (NNUE_evaluate X pos True (psqtOnly K pos alpha beta)))
                        (simple_eval K pos (side_to_move pos)) (major_material pos))
                     (rule60_count pos))
               (VALUE_MATED_IN_MAX_PLY K + 1) (VALUE_MATE_IN_MAX_PLY K - 1)))
   \<and> (0 \<le> sint s \<and> sint s \<le> 293 \<and> fits32 (sint v * 293) \<longrightarrow>
        sint (damp v s) = sint v * (293 - sint s) sdiv 194)
   \<and> (0 \<le> sint s \<and> sint s \<le> sint s' \<and> sint s' \<le> 293 \<and> fits32 (sint v * 293) \<longrightarrow>
        \<bar>sint (damp v s')\<bar> \<le> \<bar>sint (damp v s)\<bar>)
   \<and> (\<not> checkers pos \<and> rule60_count pos = 293
        \<and> sint (VALUE_MATED_IN_MAX_PLY K) < 0 \<and> 0 < sint (VALUE_MATE_IN_MAX_PLY K) \<longrightarrow>
        evaluate K X pos optimism alpha beta = Inr 0)"
proof (intro conjI impI)
  assume "\<not> checkers pos"
  then show "evaluate K X pos optimism alpha beta =
        Inr (clamp
               (damp (blend optimism
                        (fst (NNUE_evaluate X pos True (psqtOnly K pos alpha beta)))
                        (snd (NNUE_evaluate X pos True (psqtOnly K pos alpha beta)))
                        (simple_eval K pos (side_to_move pos)) (major_material pos))
                     (rule60_count pos))
               (VALUE_MATED_IN_MAX_PLY K + 1) (VALUE_MATE_IN_MAX_PLY K - 1))"
    by (simp add: evaluate_parts evaluate_tail_def)
next
  assume "0 \<le> sint s \<and> sint s \<le> 293 \<and> fits32 (sint v * 293)"
  then show "sint (damp v s) = sint v * (293 - sint s) sdiv 194"
    by (simp add: damp_sint)
next
  assume "0 \<le> sint s \<and> sint s \<le> sint s' \<and> sint s' \<le> 293 \<and> fits32 (sint v * 293)"
  then show "\<bar>sint (damp v s')\<bar> \<le> \<bar>sint (damp v s)\<bar>"
    by (simp add: damp_monotone)
next
  assume "\<not> checkers pos \<and> rule60_count pos = 293
        \<and> sint (VALUE_MATED_IN_MAX_PLY K) < 0 \<and> 0 < sint (VALUE_MATE_IN_MAX_PLY K)"
  then show "evaluate K X pos optimism alpha beta = Inr 0"
    by (simp add: evaluate_parts evaluate_tail_def damp_293 clamp_0)
qed

theorem damping_by_shuffling_witness:
  "\<not> checkers sample_position
   \<and> evaluate sample_constants sample_externals sample_position 40 (- 200) 200
       = Inr (clamp (damp (- 178) 12) (- 31753) 31753)
   \<and> 0 \<le> sint (12 :: int32) \<and> sint (12 :: int32) \<le> sint (100 :: int32)
   \<and> sint (100 :: int32) \<le> 293 \<and> fits32 (sint (- 178 :: int32) * 293)
   \<and> sint (damp (- 178) 12) = - 178 * (293 - 12) sdiv 194
   \<and> damp (- 178) 12 = - 257 \<and> damp (- 178) 100 = - 177
   \<and> \<bar>sint (damp (- 178) 100)\<bar> \<le> \<bar>sint (damp (- 178) 12)\<bar>
   \<and> \<not> checkers (sample_position\<lparr>rule60_count := 293\<rparr>)
   \<and> rule60_count (sample_position\<lparr>rule60_count := 293\<rparr>) = 293
   \<and> sint (VALUE_MATED_IN_MAX_PLY sample_constants) < 0
   \<and> 0 < sint (VALUE_MATE_IN_MAX_PLY sample_constants)
   \<and> evaluate sample_constants sample_externals (sample_position\<lparr>rule60_count := 293\<rparr>)
         40 (- 200) 200 = Inr 0"
proof -
  have h1: "\<not> checkers sample_position"
    by (simp add: sample_position_simps)
  have h2: "0 \<le> sint (12 :: int32) \<and> sint (12 :: int32) \<le> 293
            \<and> fits32 (sint (- 178 :: int32) * 293)"
    by (simp add: fits32_def)
  have h3: "0 \<le> sint (12 :: int32) \<and> sint (12 :: int32) \<le> sint (100 :: int32)
            \<and> sint (100 :: int32) \<le> 293 \<and> fits32 (sint (- 178 :: int32) * 293)"
    by (simp add: fits32_def)
  have h4: "\<not> checkers (sample_position\<lparr>rule60_count := 293\<rparr>)
            \<and> rule60_count (sample_position\<lparr>rule60_count := 293\<rparr>) = 293
            \<and> sint (VALUE_MATED_IN_MAX_PLY sample_constants) < 0
            \<and> 0 < sint (VALUE_MATE_IN_MAX_PLY sample_constants)"
    by (simp add: sample_position_simps sample_constants_simps)
  note a = damping_by_shuffling
    [of sample_position sample_constants sample_externals 40 "- 200" 200 12 "- 178" 100]
  note b = damping_by_shuffling
    [of "sample_position\<lparr>rule60_count := 293\<rparr>" sample_constants sample_externals
      40 "- 200" 200 12 "- 178" 100]
  have c1: "evaluate sample_constants sample_externals sample_position 40 (- 200) 200
            = Inr (clamp (damp (- 178) 12) (- 31753) 31753)"
    using a h1
    by (simp add: sample_psqtOnly sample_NNUE_evaluate sample_position_simps
        sample_simple_eval sample_blend sample_constants_simps)
  have c2: "sint (damp (- 178) 12) = - 178 * (293 - 12) sdiv 194"
    using a h2 by simp
  have c3: "\<bar>sint (damp (- 178) 100)\<bar> \<le> \<bar>sint (damp (- 178) 12)\<bar>"
    using a h3 by blast
  have c4: "evaluate sample_constants sample_externals (sample_position\<lparr>rule60_count := 293\<rparr>)
              40 (- 200) 200 = Inr 0"
    using b h4 by blast
  show ?thesis
    using h1 h3 h4 c1 c2 c3 c4 sample_damp sample_damp_more by simp
qed

subsection \<open>The shortcut flag and the search window\<close>

text \<open>
  C6: when the side to move is not in check, \<open>evaluate\<close> calls the inference routine on
  the position with the flag \<open>psqtOnly\<close> equal to
  \<open>simpleEval > beta + 2500 || simpleEval < alpha - 2500\<close>, and the rest of the
  computation uses what that call returns. Where \<open>beta + 2500\<close> and \<open>alpha - 2500\<close> do not
  overflow, the flag is true if and only if \<open>simpleEval\<close> exceeds beta by more than 2500
  or falls below alpha by more than 2500.
\<close>

theorem psqtOnly_requested:
  "\<not> checkers pos \<Longrightarrow>
   evaluate K X pos optimism alpha beta =
     Inr (evaluate_tail K pos optimism
            (NNUE_evaluate X pos True
               (beta + 2500 <s simple_eval K pos (side_to_move pos)
                \<or> simple_eval K pos (side_to_move pos) <s alpha - 2500)))
   \<and> (fits32 (sint beta + 2500) \<and> fits32 (sint alpha - 2500) \<longrightarrow>
        ((beta + 2500 <s simple_eval K pos (side_to_move pos)
          \<or> simple_eval K pos (side_to_move pos) <s alpha - 2500)
         \<longleftrightarrow> (2500 < sint (simple_eval K pos (side_to_move pos)) - sint beta
              \<or> 2500 < sint alpha - sint (simple_eval K pos (side_to_move pos)))))"
proof (intro conjI impI)
  assume "\<not> checkers pos"
  then show "evaluate K X pos optimism alpha beta =
     Inr (evaluate_tail K pos optimism
            (NNUE_evaluate X pos True
               (beta + 2500 <s simple_eval K pos (side_to_move pos)
                \<or> simple_eval K pos (side_to_move pos) <s alpha - 2500)))"
    by (simp add: evaluate_parts psqtOnly_def Let_def disj_commute)
next
  assume "fits32 (sint beta + 2500) \<and> fits32 (sint alpha - 2500)"
  then have "sint (beta + 2500) = sint beta + 2500" and "sint (alpha - 2500) = sint alpha - 2500"
    using sint_add_fits [of beta 2500] sint_sub_fits [of alpha 2500] by simp_all
  then show "(beta + 2500 <s simple_eval K pos (side_to_move pos)
          \<or> simple_eval K pos (side_to_move pos) <s alpha - 2500)
         \<longleftrightarrow> (2500 < sint (simple_eval K pos (side_to_move pos)) - sint beta
              \<or> 2500 < sint alpha - sint (simple_eval K pos (side_to_move pos)))"
    by (auto simp add: word_sless_alt)
qed

theorem psqtOnly_requested_witness:
  "\<not> checkers sample_position
   \<and> simple_eval sample_constants sample_position (side_to_move sample_position) = - 940
   \<and> fits32 (sint (2200 :: int32) + 2500) \<and> fits32 (sint (2000 :: int32) - 2500)
   \<and> 2500 < sint (2000 :: int32) - sint (- 940 :: int32)
   \<and> (2200 + 2500 <s (- 940 :: int32) \<or> (- 940 :: int32) <s 2000 - 2500)
   \<and> evaluate sample_constants sample_externals sample_position 40 2000 2200 =
       Inr (evaluate_tail sample_constants sample_position 40
              (NNUE_evaluate sample_externals sample_position True True))"
proof -
  have h1: "\<not> checkers sample_position"
    by (simp add: sample_position_simps)
  have h2: "fits32 (sint (2200 :: int32) + 2500) \<and> fits32 (sint (2000 :: int32) - 2500)"
    by (simp add: fits32_def)
  have se: "simple_eval sample_constants sample_position (side_to_move sample_position) = - 940"
    by (simp add: sample_position_simps sample_simple_eval)
  have flag: "2500 < sint (2000 :: int32) - sint (- 940 :: int32)"
    by simp
  note a = psqtOnly_requested [OF h1, of sample_constants sample_externals 40 2000 2200]
  from a h2 flag have "2200 + 2500 <s (- 940 :: int32) \<or> (- 940 :: int32) <s 2000 - 2500"
    unfolding se by blast
  with a h1 h2 se flag show ?thesis
    by simp
qed

text \<open>
  C10: \<open>evaluate\<close> depends on alpha and beta only through the condition
  \<open>alpha - 2500 > simpleEval || simpleEval > beta + 2500\<close>: for one position and one
  optimism, two windows at which the condition has the same truth value give the same
  result.
\<close>

theorem evaluate_window_only_through_flag:
  assumes "(simple_eval K pos (side_to_move pos) <s alpha - 2500
            \<or> beta + 2500 <s simple_eval K pos (side_to_move pos))
           = (simple_eval K pos (side_to_move pos) <s alpha' - 2500
              \<or> beta' + 2500 <s simple_eval K pos (side_to_move pos))"
  shows "evaluate K X pos optimism alpha beta = evaluate K X pos optimism alpha' beta'"
  using assms by (simp add: evaluate_def Let_def)

theorem evaluate_window_only_through_flag_witness:
  "(simple_eval sample_constants sample_position (side_to_move sample_position) <s - 200 - 2500
    \<or> 200 + 2500 <s simple_eval sample_constants sample_position (side_to_move sample_position))
   = (simple_eval sample_constants sample_position (side_to_move sample_position) <s - 32002 - 2500
      \<or> 32002 + 2500 <s simple_eval sample_constants sample_position (side_to_move sample_position))
   \<and> evaluate sample_constants sample_externals sample_position 40 (- 200) 200
       = evaluate sample_constants sample_externals sample_position 40 (- 32002) 32002"
proof -
  have h: "(simple_eval sample_constants sample_position (side_to_move sample_position)
              <s - 200 - 2500
            \<or> 200 + 2500
              <s simple_eval sample_constants sample_position (side_to_move sample_position))
           = (simple_eval sample_constants sample_position (side_to_move sample_position)
                <s - 32002 - 2500
              \<or> 32002 + 2500
                <s simple_eval sample_constants sample_position (side_to_move sample_position))"
    by (simp add: sample_position_simps sample_simple_eval word_sless_alt)
  show ?thesis
    using h evaluate_window_only_through_flag [OF h, of sample_externals 40]
    by blast
qed

subsection \<open>The trace\<close>

lemma sample_tail_window:
  "evaluate_tail sample_constants sample_position 0 (- 350, 120) = - 289"
proof -
  have fits: "blend_fits 0 (- 350) 120 (- 940) 11200"
    by (simp add: blend_fits_def fits32_def signed_divide_int_def)
  have exact: "blend_exact 0 (- 350) 120 (- 940) 11200 = - 200"
    by (simp add: blend_exact_def signed_divide_int_def)
  have "sint (blend 0 (- 350) 120 (- 940) 11200) = - 200"
    using blend_sint [of 0 "- 350" 120 "- 940" 11200] by (simp add: fits exact)
  then have "word_of_int (sint (blend 0 (- 350) 120 (- 940) 11200)) = (word_of_int (- 200) :: int32)"
    by simp
  then have b: "blend 0 (- 350) 120 (- 940) 11200 = - 200"
    by simp
  have d: "damp (- 200) 12 = - 289"
    by (simp add: damp_def idiv_def signed_divide_int_def)
  have c: "clamp (- 289) (- 31753) 31753 = - 289"
    by (simp add: clamp_def word_sless_alt)
  show ?thesis
    by (simp add: evaluate_tail_def sample_position_simps sample_simple_eval
        sample_constants_simps b d c)
qed

text \<open>
  C9: when the side to move is in check \<open>trace\<close> returns the fixed string
  \<open>Final evaluation: none (in check)\<close>. Otherwise the report ends with the line of the
  final evaluation: the value that \<open>evaluate\<close> returns for optimism \<open>VALUE_ZERO\<close> (zero)
  and the window from \<open>-VALUE_NONE\<close> to \<open>VALUE_NONE\<close>, negated when the side to move is
  Black, and printed after the breakdown of the inference routine and the line of the
  network's own evaluation.
\<close>

theorem trace_report:
  "(checkers pos \<longrightarrow> trace K X pos = Inr ''Final evaluation: none (in check)'')
   \<and> (\<not> checkers pos \<longrightarrow>
        (\<exists>v. evaluate K X pos 0 (- VALUE_NONE K) (VALUE_NONE K) = Inr v
           \<and> trace K X pos =
               Inr ([CHR 0x0A] @ NNUE_trace X pos @ [CHR 0x0A]
                    @ ''NNUE evaluation        ''
                    @ put_cp X (if side_to_move pos = WHITE then NNUE_evaluate_pos X pos
                                else - NNUE_evaluate_pos X pos)
                    @ '' (white side)'' @ [CHR 0x0A]
                    @ ''Final evaluation       ''
                    @ put_cp X (if side_to_move pos = WHITE then v else - v)
                    @ '' (white side) [with scaled NNUE, ...]'' @ [CHR 0x0A])))"
proof (intro conjI impI)
  assume "checkers pos"
  then show "trace K X pos = Inr ''Final evaluation: none (in check)''"
    by (simp add: trace_def)
next
  assume free: "\<not> checkers pos"
  define v where
    "v = evaluate_tail K pos 0
           (NNUE_evaluate X pos True (psqtOnly K pos (- VALUE_NONE K) (VALUE_NONE K)))"
  have e: "evaluate K X pos 0 (- VALUE_NONE K) (VALUE_NONE K) = Inr v"
    using free by (simp add: evaluate_parts v_def)
  have "trace K X pos =
               Inr ([CHR 0x0A] @ NNUE_trace X pos @ [CHR 0x0A]
                    @ ''NNUE evaluation        ''
                    @ put_cp X (if side_to_move pos = WHITE then NNUE_evaluate_pos X pos
                                else - NNUE_evaluate_pos X pos)
                    @ '' (white side)'' @ [CHR 0x0A]
                    @ ''Final evaluation       ''
                    @ put_cp X (if side_to_move pos = WHITE then v else - v)
                    @ '' (white side) [with scaled NNUE, ...]'' @ [CHR 0x0A])"
    using free by (simp add: trace_def VALUE_ZERO_def e Let_def)
  with e show "\<exists>v. evaluate K X pos 0 (- VALUE_NONE K) (VALUE_NONE K) = Inr v
           \<and> trace K X pos =
               Inr ([CHR 0x0A] @ NNUE_trace X pos @ [CHR 0x0A]
                    @ ''NNUE evaluation        ''
                    @ put_cp X (if side_to_move pos = WHITE then NNUE_evaluate_pos X pos
                                else - NNUE_evaluate_pos X pos)
                    @ '' (white side)'' @ [CHR 0x0A]
                    @ ''Final evaluation       ''
                    @ put_cp X (if side_to_move pos = WHITE then v else - v)
                    @ '' (white side) [with scaled NNUE, ...]'' @ [CHR 0x0A])"
    by blast
qed

theorem trace_report_witness:
  "checkers (sample_position\<lparr>checkers := True\<rparr>)
   \<and> trace sample_constants sample_externals (sample_position\<lparr>checkers := True\<rparr>)
       = Inr ''Final evaluation: none (in check)''
   \<and> \<not> checkers sample_position
   \<and> evaluate sample_constants sample_externals sample_position 0 (- 32002) 32002
       = Inr (- 289)
   \<and> trace sample_constants sample_externals sample_position
       = Inr ([CHR 0x0A] @ ''(breakdown)'' @ [CHR 0x0A]
              @ ''NNUE evaluation        + (white side)'' @ [CHR 0x0A]
              @ ''Final evaluation       + (white side) [with scaled NNUE, ...]''
              @ [CHR 0x0A])"
proof -
  have h1: "checkers (sample_position\<lparr>checkers := True\<rparr>)"
    by simp
  have h2: "\<not> checkers sample_position"
    by (simp add: sample_position_simps)
  have flag: "psqtOnly sample_constants sample_position (- 32002) 32002 = False"
    by (simp add: psqtOnly_def sample_simple_eval sample_position_simps word_sless_alt)
  have e: "evaluate sample_constants sample_externals sample_position 0 (- 32002) 32002
           = Inr (- 289)"
    using h2 by (simp add: evaluate_parts flag sample_NNUE_evaluate sample_tail_window)
  note a = trace_report
    [of "sample_position\<lparr>checkers := True\<rparr>" sample_constants sample_externals]
  note b = trace_report [of sample_position sample_constants sample_externals]
  have c1: "trace sample_constants sample_externals (sample_position\<lparr>checkers := True\<rparr>)
            = Inr ''Final evaluation: none (in check)''"
    using a h1 by blast
  have "\<exists>v. Inr (- 289) = (Inr v :: error + Value)
           \<and> trace sample_constants sample_externals sample_position =
               Inr ([CHR 0x0A] @ ''(breakdown)'' @ [CHR 0x0A]
                    @ ''NNUE evaluation        '' @ ''+''
                    @ '' (white side)'' @ [CHR 0x0A]
                    @ ''Final evaluation       ''
                    @ put_cp sample_externals (- v)
                    @ '' (white side) [with scaled NNUE, ...]'' @ [CHR 0x0A])"
    using b h2
    by (simp add: sample_constants_simps e sample_position_simps)
       (simp add: sample_externals_def word_sless_alt)
  then have c2: "trace sample_constants sample_externals sample_position
       = Inr ([CHR 0x0A] @ ''(breakdown)'' @ [CHR 0x0A]
              @ ''NNUE evaluation        + (white side)'' @ [CHR 0x0A]
              @ ''Final evaluation       + (white side) [with scaled NNUE, ...]''
              @ [CHR 0x0A])"
    by (auto simp add: sample_externals_def word_sless_alt)
  show ?thesis
    using h1 h2 e c1 c2 by blast
qed

subsection \<open>Loading and verifying the network\<close>

lemma load_from_failed:
  assumes "load_eval F (read_zipped_nnue F (directory @ user_eval_file)) = None"
    and "load_eval F (ifstream_binary F (directory @ user_eval_file)) = None"
  shows "load_from F user_eval_file directory evalFile = evalFile"
  using assms by (simp add: load_from_def)

lemma load_loop_failed:
  assumes "\<forall>directory \<in> set dirs.
             load_eval F (read_zipped_nnue F (directory @ user_eval_file)) = None
             \<and> load_eval F (ifstream_binary F (directory @ user_eval_file)) = None"
  shows "load_loop F user_eval_file dirs evalFile = evalFile"
  using assms by (induction dirs) (simp_all add: load_from_failed)

lemma load_from_cases:
  "load_from F user_eval_file directory evalFile = evalFile
   \<or> (\<exists>d. (load_eval F (read_zipped_nnue F (directory @ user_eval_file)) = Some d
            \<or> load_eval F (read_zipped_nnue F (directory @ user_eval_file)) = None
              \<and> load_eval F (ifstream_binary F (directory @ user_eval_file)) = Some d)
          \<and> current evalFile \<noteq> user_eval_file
          \<and> load_from F user_eval_file directory evalFile
             = evalFile\<lparr>current := user_eval_file, netDescription := d\<rparr>)"
  by (auto simp add: load_from_def Let_def split: option.splits)

lemma load_from_loaded:
  "current evalFile = user_eval_file \<Longrightarrow>
   load_from F user_eval_file directory evalFile = evalFile"
  by (simp add: load_from_def)

lemma load_loop_loaded:
  "current evalFile = user_eval_file \<Longrightarrow>
   load_loop F user_eval_file dirs evalFile = evalFile"
  by (induction dirs) (simp_all add: load_from_loaded)

lemma load_loop_cases:
  "load_loop F user_eval_file dirs evalFile = evalFile
   \<or> (\<exists>directory d. directory \<in> set dirs
          \<and> (load_eval F (read_zipped_nnue F (directory @ user_eval_file)) = Some d
             \<or> load_eval F (read_zipped_nnue F (directory @ user_eval_file)) = None
               \<and> load_eval F (ifstream_binary F (directory @ user_eval_file)) = Some d)
          \<and> current evalFile \<noteq> user_eval_file
          \<and> load_loop F user_eval_file dirs evalFile
             = evalFile\<lparr>current := user_eval_file, netDescription := d\<rparr>)"
proof (induction dirs)
  case Nil
  then show ?case by simp
next
  case (Cons directory dirs)
  consider (unchanged) "load_from F user_eval_file directory evalFile = evalFile"
    | (loaded) d where
        "load_eval F (read_zipped_nnue F (directory @ user_eval_file)) = Some d
         \<or> load_eval F (read_zipped_nnue F (directory @ user_eval_file)) = None
           \<and> load_eval F (ifstream_binary F (directory @ user_eval_file)) = Some d"
        "current evalFile \<noteq> user_eval_file"
        "load_from F user_eval_file directory evalFile
         = evalFile\<lparr>current := user_eval_file, netDescription := d\<rparr>"
    using load_from_cases [of F user_eval_file directory evalFile] by blast
  then show ?case
  proof cases
    case unchanged
    with Cons.IH show ?thesis
      by auto
  next
    case loaded
    have "load_loop F user_eval_file (directory # dirs) evalFile
          = evalFile\<lparr>current := user_eval_file, netDescription := d\<rparr>"
      by (simp add: loaded(3) load_loop_loaded)
    with loaded(1,2) show ?thesis
      by auto
  qed
qed

lemma sample_load_eval:
  "load_eval sample_files (read_zipped_nnue sample_files path) = None"
  "load_eval sample_files (ifstream_binary sample_files path)
   = (if path = ''engine/pikafish.nnue'' then Some ''net-1'' else None)"
  by (simp_all add: sample_files_def)

lemma sample_evalFile_simps:
  "optionName sample_evalFile = ''EvalFile''" "defaultName sample_evalFile = ''pikafish.nnue''"
  "current sample_evalFile = ''None''" "netDescription sample_evalFile = ''''"
  by (simp_all add: sample_evalFile_def)

text \<open>
  C2: \<open>verify\<close> resolves the desired file name, the configured value or the default name
  when that value is empty. When the name of the loaded file differs from it, \<open>verify\<close>
  writes the five lines of the diagnostic and ends the process with the status
  \<open>EXIT_FAILURE\<close>, which is not zero; when the two are equal it writes one line that names
  the file and returns. The process is ended if and only if the names differ.
\<close>

theorem verify_fatal_iff_names_differ:
  assumes "user_eval_file =
             (if options (optionName evalFile) = [] then defaultName evalFile
              else options (optionName evalFile))"
  shows "(current evalFile \<noteq> user_eval_file \<longrightarrow>
            verify options evalFile =
              ([''info string ERROR: Network evaluation parameters compatible with the engine must be available.'',
                ''info string ERROR: The network file '' @ user_eval_file
                  @ '' was not loaded successfully.'',
                ''info string ERROR: The UCI option EvalFile might need to specify the full path, including the directory name, to the network file.'',
                ''info string ERROR: The default net can be downloaded from: https://github.com/official-pikafish/Networks/releases/download/master-net/''
                  @ defaultName evalFile,
                ''info string ERROR: The engine will be terminated now.''],
               Exits EXIT_FAILURE)
            \<and> EXIT_FAILURE \<noteq> 0)
         \<and> (current evalFile = user_eval_file \<longrightarrow>
              verify options evalFile =
                ([''info string NNUE evaluation using '' @ current evalFile @ '' enabled''],
                 Returns))
         \<and> ((\<exists>status. snd (verify options evalFile) = Exits status)
              \<longleftrightarrow> current evalFile \<noteq> user_eval_file)"
  using assms by (simp add: verify_def EXIT_FAILURE_def Let_def)

theorem verify_fatal_iff_names_differ_witness:
  "''custom.net'' =
     (if custom_options (optionName sample_evalFile) = [] then defaultName sample_evalFile
      else custom_options (optionName sample_evalFile))
   \<and> current sample_evalFile \<noteq> ''custom.net''
   \<and> verify custom_options sample_evalFile =
       ([''info string ERROR: Network evaluation parameters compatible with the engine must be available.'',
         ''info string ERROR: The network file custom.net was not loaded successfully.'',
         ''info string ERROR: The UCI option EvalFile might need to specify the full path, including the directory name, to the network file.'',
         ''info string ERROR: The default net can be downloaded from: https://github.com/official-pikafish/Networks/releases/download/master-net/pikafish.nnue'',
         ''info string ERROR: The engine will be terminated now.''],
        Exits 1)
   \<and> ''pikafish.nnue'' =
       (if default_options (optionName (sample_evalFile\<lparr>current := ''pikafish.nnue''\<rparr>)) = []
        then defaultName (sample_evalFile\<lparr>current := ''pikafish.nnue''\<rparr>)
        else default_options (optionName (sample_evalFile\<lparr>current := ''pikafish.nnue''\<rparr>)))
   \<and> current (sample_evalFile\<lparr>current := ''pikafish.nnue''\<rparr>) = ''pikafish.nnue''
   \<and> verify default_options (sample_evalFile\<lparr>current := ''pikafish.nnue''\<rparr>) =
       ([''info string NNUE evaluation using pikafish.nnue enabled''], Returns)"
proof -
  have h1: "''custom.net'' =
     (if custom_options (optionName sample_evalFile) = [] then defaultName sample_evalFile
      else custom_options (optionName sample_evalFile))"
    by (simp add: custom_options_def sample_evalFile_simps)
  have h2: "''pikafish.nnue'' =
     (if default_options (optionName (sample_evalFile\<lparr>current := ''pikafish.nnue''\<rparr>)) = []
      then defaultName (sample_evalFile\<lparr>current := ''pikafish.nnue''\<rparr>)
      else default_options (optionName (sample_evalFile\<lparr>current := ''pikafish.nnue''\<rparr>)))"
    by (simp add: default_options_def sample_evalFile_simps)
  note a = verify_fatal_iff_names_differ
    [where options = custom_options and evalFile = sample_evalFile, OF h1]
  note b = verify_fatal_iff_names_differ
    [where options = default_options
       and evalFile = "sample_evalFile\<lparr>current := ''pikafish.nnue''\<rparr>", OF h2]
  have c1: "current sample_evalFile \<noteq> ''custom.net''"
    by (simp add: sample_evalFile_simps)
  have c2: "verify custom_options sample_evalFile =
       ([''info string ERROR: Network evaluation parameters compatible with the engine must be available.'',
         ''info string ERROR: The network file custom.net was not loaded successfully.'',
         ''info string ERROR: The UCI option EvalFile might need to specify the full path, including the directory name, to the network file.'',
         ''info string ERROR: The default net can be downloaded from: https://github.com/official-pikafish/Networks/releases/download/master-net/pikafish.nnue'',
         ''info string ERROR: The engine will be terminated now.''],
        Exits 1)"
    using a c1 by (simp add: sample_evalFile_simps EXIT_FAILURE_def)
  have c3: "verify default_options (sample_evalFile\<lparr>current := ''pikafish.nnue''\<rparr>) =
       ([''info string NNUE evaluation using pikafish.nnue enabled''], Returns)"
    using b by simp
  have c4: "current (sample_evalFile\<lparr>current := ''pikafish.nnue''\<rparr>) = ''pikafish.nnue''"
    by simp
  show ?thesis
    using h1 h2 c1 c2 c3 c4 by blast
qed

lemma sample_load_default:
  "load_networks sample_files ''engine/'' default_options sample_evalFile
   = sample_evalFile\<lparr>current := ''pikafish.nnue'', netDescription := ''net-1''\<rparr>"
  by (simp add: load_networks_def load_from_def default_options_def sample_evalFile_simps
      sample_load_eval)

text \<open>
  C3: when neither the working directory nor the root directory holds a file of the
  desired name that parses, as a compressed container or as a raw binary stream,
  \<open>load_networks\<close> returns the state it was given. \<open>load_networks\<close> has no outcome but a
  returned state: the source raises nothing and calls neither \<open>exit\<close> nor \<open>assert\<close>.
\<close>

theorem load_networks_nothing_parses:
  assumes "user_eval_file =
             (if options (optionName evalFile) = [] then defaultName evalFile
              else options (optionName evalFile))"
    and "\<forall>directory \<in> set ['''', rootDirectory].
           load_eval F (read_zipped_nnue F (directory @ user_eval_file)) = None
           \<and> load_eval F (ifstream_binary F (directory @ user_eval_file)) = None"
  shows "load_networks F rootDirectory options evalFile = evalFile"
  using load_loop_failed [OF assms(2)] assms(1) by (simp add: load_networks_def Let_def)

theorem load_networks_nothing_parses_witness:
  "''custom.net'' =
     (if custom_options (optionName sample_evalFile) = [] then defaultName sample_evalFile
      else custom_options (optionName sample_evalFile))
   \<and> load_eval sample_files (read_zipped_nnue sample_files ('''' @ ''custom.net'')) = None
   \<and> load_eval sample_files (ifstream_binary sample_files ('''' @ ''custom.net'')) = None
   \<and> load_eval sample_files (read_zipped_nnue sample_files (''engine/'' @ ''custom.net''))
       = None
   \<and> load_eval sample_files (ifstream_binary sample_files (''engine/'' @ ''custom.net''))
       = None
   \<and> load_networks sample_files ''engine/'' custom_options sample_evalFile = sample_evalFile
   \<and> snd (verify custom_options
             (load_networks sample_files ''engine/'' custom_options sample_evalFile))
       = Exits 1"
proof -
  have h1: "''custom.net'' =
     (if custom_options (optionName sample_evalFile) = [] then defaultName sample_evalFile
      else custom_options (optionName sample_evalFile))"
    by (simp add: custom_options_def sample_evalFile_simps)
  have h2: "\<forall>directory \<in> set ['''', ''engine/''].
         load_eval sample_files (read_zipped_nnue sample_files (directory @ ''custom.net''))
           = None
         \<and> load_eval sample_files (ifstream_binary sample_files (directory @ ''custom.net''))
           = None"
    by (simp add: sample_load_eval)
  have h3:
    "load_eval sample_files (read_zipped_nnue sample_files ('''' @ ''custom.net'')) = None"
    "load_eval sample_files (ifstream_binary sample_files ('''' @ ''custom.net'')) = None"
    "load_eval sample_files (read_zipped_nnue sample_files (''engine/'' @ ''custom.net''))
     = None"
    "load_eval sample_files (ifstream_binary sample_files (''engine/'' @ ''custom.net''))
     = None"
    by (simp_all add: sample_load_eval)
  have c1: "load_networks sample_files ''engine/'' custom_options sample_evalFile
            = sample_evalFile"
    using load_networks_nothing_parses
      [where options = custom_options and evalFile = sample_evalFile, OF h1 h2] .
  have c2: "snd (verify custom_options
             (load_networks sample_files ''engine/'' custom_options sample_evalFile))
       = Exits 1"
    unfolding c1
    by (simp add: verify_def custom_options_def sample_evalFile_simps EXIT_FAILURE_def Let_def)
  show ?thesis
    using h1 h3 c1 c2 by blast
qed

text \<open>
  C8: \<open>load_networks\<close> updates \<open>current\<close> and \<open>netDescription\<close> together or not at all. The
  state it returns is the state it was given, or that state with \<open>current\<close> set to the
  desired name and \<open>netDescription\<close> set to the description parsed from the file of that
  name in the working directory or in the root directory (from the compressed container,
  or from the raw stream when the container gave none).
\<close>

theorem load_networks_both_or_neither:
  assumes "user_eval_file =
             (if options (optionName evalFile) = [] then defaultName evalFile
              else options (optionName evalFile))"
  shows "load_networks F rootDirectory options evalFile = evalFile
         \<or> (\<exists>directory d. directory \<in> set ['''', rootDirectory]
                \<and> (load_eval F (read_zipped_nnue F (directory @ user_eval_file)) = Some d
                   \<or> load_eval F (read_zipped_nnue F (directory @ user_eval_file)) = None
                     \<and> load_eval F (ifstream_binary F (directory @ user_eval_file)) = Some d)
                \<and> current evalFile \<noteq> user_eval_file
                \<and> load_networks F rootDirectory options evalFile
                   = evalFile\<lparr>current := user_eval_file, netDescription := d\<rparr>)"
  using load_loop_cases [of F user_eval_file "['''', rootDirectory]" evalFile] assms
  by (simp add: load_networks_def Let_def)

theorem load_networks_both_or_neither_witness:
  "''pikafish.nnue'' =
     (if default_options (optionName sample_evalFile) = [] then defaultName sample_evalFile
      else default_options (optionName sample_evalFile))
   \<and> load_networks sample_files ''engine/'' default_options sample_evalFile
       = sample_evalFile\<lparr>current := ''pikafish.nnue'', netDescription := ''net-1''\<rparr>
   \<and> load_networks sample_files ''engine/'' default_options sample_evalFile \<noteq> sample_evalFile
   \<and> (\<exists>directory d. directory \<in> set ['''', ''engine/'']
          \<and> (load_eval sample_files
                (read_zipped_nnue sample_files (directory @ ''pikafish.nnue'')) = Some d
              \<or> load_eval sample_files
                  (read_zipped_nnue sample_files (directory @ ''pikafish.nnue'')) = None
                \<and> load_eval sample_files
                    (ifstream_binary sample_files (directory @ ''pikafish.nnue'')) = Some d)
          \<and> current sample_evalFile \<noteq> ''pikafish.nnue''
          \<and> load_networks sample_files ''engine/'' default_options sample_evalFile
             = sample_evalFile\<lparr>current := ''pikafish.nnue'', netDescription := d\<rparr>)"
proof -
  have h: "''pikafish.nnue'' =
     (if default_options (optionName sample_evalFile) = [] then defaultName sample_evalFile
      else default_options (optionName sample_evalFile))"
    by (simp add: default_options_def sample_evalFile_simps)
  have changed: "load_networks sample_files ''engine/'' default_options sample_evalFile
                 \<noteq> sample_evalFile"
    unfolding sample_load_default by (simp add: sample_evalFile_def)
  note a = load_networks_both_or_neither
    [where options = default_options and evalFile = sample_evalFile
       and F = sample_files and rootDirectory = "''engine/''", OF h]
  show ?thesis
    using h changed a sample_load_default by blast
qed

subsection \<open>The material estimate\<close>

text \<open>
  C7: \<open>simple_eval\<close> is a function of the position and the colour only, and it is
  antisymmetric in the colour: the value for a colour is the negation of the value for
  the other colour; in particular the value for White is the negation of the value for
  Black.
\<close>

theorem simple_eval_antisymmetric:
  "simple_eval K p c = - simple_eval K p (color_not c)
   \<and> simple_eval K p WHITE = - simple_eval K p BLACK"
  by (cases c) (simp_all add: simple_eval_def algebra_simps)

end
